theory Spec2Isabelle
  imports Main
begin

section \<open>The quiz reducer of react-quiz\<close>

text \<open>
  The core of the application is the reducer printed in the README
  (\<^verbatim>\<open>function reducer(state, action)\<close>), together with the constant
  \<^verbatim>\<open>SECS_PER_QUESTION\<close> and the object \<^verbatim>\<open>initialState\<close>. The components
  \<^verbatim>\<open>NextButton\<close>, \<^verbatim>\<open>Options\<close>, \<^verbatim>\<open>StartScreen\<close> and \<^verbatim>\<open>Timer\<close> only
  build action objects and hand them to \<^verbatim>\<open>dispatch\<close>.

  JavaScript numbers are IEEE doubles; the numbers of the state are integers and
  are modelled as \<^typ>\<open>int\<close>. Comparison, \<^verbatim>\<open>Math.max\<close> and the product
  \<^verbatim>\<open>questions.length * SECS_PER_QUESTION\<close> are exact on doubles. The sums
  \<^verbatim>\<open>state.points + question.points\<close>, \<^verbatim>\<open>state.index + 1\<close> and
  \<^verbatim>\<open>state.secondsRemaining - 1\<close> are exact as long as the operands and the result
  are safe integers (magnitude at most \<open>2^53 - 1\<close>); beyond that a double rounds
  (\<open>2^53 + 1\<close> is \<open>2^53\<close>) and the integer sum of the model is not what the
  code returns. A theorem that states the value of such a sum for an arbitrary
  state therefore assumes the safe range. \<^verbatim>\<open>null\<close> is \<^term>\<open>None\<close>. A thrown exception is the left
  summand of the result.
\<close>

subsection \<open>Data\<close>

text \<open>One entry of \<^verbatim>\<open>questions.json\<close>.\<close>

record question =
  question :: string
  options :: "string list"
  correctOption :: int
  points :: int

datatype status = Loading | Error | Ready | Active | Finished

record state =
  questions :: "question list"
  status :: status
  index :: int
  answer :: "int option"
  points :: int
  highscore :: int
  secondsRemaining :: "int option"

text \<open>
  The action objects. The eight labelled cases of the \<^verbatim>\<open>switch\<close> carry the payload
  their dispatching component gives them; \<open>Other t\<close> is an action object whose
  \<^verbatim>\<open>type\<close> is the string \<open>t\<close>, for a \<open>t\<close> that is none of the eight labels.
\<close>

datatype action =
    DataReceived "question list"
  | DataFailed
  | Start
  | NewAnswer int
  | NextQuestion
  | Finish
  | Restart
  | Tick
  | Other string

text \<open>The field \<^verbatim>\<open>action.type\<close>.\<close>

fun atype :: "action \<Rightarrow> string" where
  "atype (DataReceived qs) = ''dataReceived''"
| "atype DataFailed = ''dataFailed''"
| "atype Start = ''start''"
| "atype (NewAnswer p) = ''newAnswer''"
| "atype NextQuestion = ''nextQuestion''"
| "atype Finish = ''finish''"
| "atype Restart = ''restart''"
| "atype Tick = ''tick''"
| "atype (Other t) = t"

text \<open>The action types the README lists as "Action types used".\<close>

definition declared_types :: "string list" where
  "declared_types =
     [''dataReceived'', ''dataFailed'', ''start'', ''newAnswer'',
      ''nextQuestion'', ''finish'', ''restart'', ''tick'']"

text \<open>
  What the reducer can throw: \<^verbatim>\<open>new Error('Action is unknown')\<close> in the default
  case, and the \<^verbatim>\<open>TypeError\<close> of reading a property of \<^verbatim>\<open>undefined\<close>.
\<close>

datatype error = UnknownAction | TypeError

subsection \<open>JavaScript primitives the reducer uses\<close>

text \<open>
  \<^verbatim>\<open>Array.prototype.at\<close>: a negative index counts from the end, and an index
  outside the array gives \<^verbatim>\<open>undefined\<close> (here \<^term>\<open>None\<close>).
\<close>

definition array_at :: "'a list \<Rightarrow> int \<Rightarrow> 'a option" where
  "array_at xs i =
     (let len = int (length xs);
          k = (if 0 \<le> i then i else len + i)
      in if k < 0 \<or> len \<le> k then None else Some (xs ! nat k))"

text \<open>\<^verbatim>\<open>ToNumber\<close> on a value that is a number or \<^verbatim>\<open>null\<close>: \<^verbatim>\<open>null - 1\<close> is \<open>-1\<close>.\<close>

definition to_number :: "int option \<Rightarrow> int" where
  "to_number v = (case v of None \<Rightarrow> 0 | Some n \<Rightarrow> n)"

text \<open>
  \<^verbatim>\<open>Number.MAX_SAFE_INTEGER\<close> and \<^verbatim>\<open>Number.isSafeInteger\<close>: the integers on
  which adding or subtracting is exact in doubles whenever the result is one of
  them too.
\<close>

definition MAX_SAFE_INTEGER :: int where
  "MAX_SAFE_INTEGER = 2 ^ 53 - 1"

definition isSafeInteger :: "int \<Rightarrow> bool" where
  "isSafeInteger n = (- MAX_SAFE_INTEGER \<le> n \<and> n \<le> MAX_SAFE_INTEGER)"

subsection \<open>The reducer\<close>

definition SECS_PER_QUESTION :: int where
  "SECS_PER_QUESTION = 30"

definition initialState :: state where
  "initialState =
     \<lparr> questions = [], status = Loading, index = 0, answer = None,
       points = 0, highscore = 0, secondsRemaining = None \<rparr>"

text \<open>
  The cases of the \<^verbatim>\<open>switch\<close>, in the order of the source. The sums of the
  \<open>newAnswer\<close>, \<open>nextQuestion\<close> and \<open>tick\<close> cases are integer sums: they are
  the sums of the code where operands and result are safe integers.
\<close>

fun reducer :: "state \<Rightarrow> action \<Rightarrow> error + state" where
  "reducer s (DataReceived payload) =
     Inr (s\<lparr>questions := payload, status := Ready\<rparr>)"
| "reducer s DataFailed =
     Inr (s\<lparr>status := Error\<rparr>)"
| "reducer s Start =
     Inr (s\<lparr>status := Active,
            secondsRemaining := Some (int (length (questions s)) * SECS_PER_QUESTION)\<rparr>)"
| "reducer s (NewAnswer payload) =
     (case array_at (questions s) (index s) of
        None \<Rightarrow> Inl TypeError
      | Some q \<Rightarrow>
          Inr (s\<lparr>answer := Some payload,
                 points := (if payload = correctOption q
                            then state.points s + question.points q
                            else state.points s)\<rparr>))"
| "reducer s NextQuestion =
     Inr (s\<lparr>index := index s + 1, answer := None\<rparr>)"
| "reducer s Finish =
     Inr (s\<lparr>status := Finished,
            highscore := max (state.points s) (highscore s)\<rparr>)"
| "reducer s Restart =
     Inr (initialState\<lparr>questions := questions s,
                       highscore := highscore s,
                       status := Ready\<rparr>)"
| "reducer s Tick =
     (let next = to_number (secondsRemaining s) - 1
      in Inr (s\<lparr>secondsRemaining := Some next,
                 status := (if next \<le> 0 then Finished else status s)\<rparr>))"
| "reducer s (Other t) = Inl UnknownAction"

text \<open>
  Dispatching a sequence of actions, one after the other, from a state. An
  exception thrown by the reducer ends the sequence.
\<close>

fun dispatch_all :: "state \<Rightarrow> action list \<Rightarrow> error + state" where
  "dispatch_all s [] = Inr s"
| "dispatch_all s (a # as) =
     (case reducer s a of Inl e \<Rightarrow> Inl e | Inr s' \<Rightarrow> dispatch_all s' as)"

text \<open>
  \<^verbatim>\<open>NextButton\<close>: the action its button dispatches when clicked, \<^term>\<open>None\<close> when
  the component renders no button.
\<close>

definition NextButton :: "int option \<Rightarrow> int \<Rightarrow> int \<Rightarrow> action option" where
  "NextButton ans numQuestions idx =
     (if ans = None then None
      else if idx < numQuestions - 1 then Some NextQuestion
      else if idx = numQuestions - 1 then Some Finish
      else None)"

text \<open>
  An action value stands for an action object when \<open>Other\<close> is used only for a
  type that is none of the eight labels; \<open>Other ''tick''\<close> stands for no object,
  the object with that type being \<open>Tick\<close>.
\<close>

definition well_formed :: "action \<Rightarrow> bool" where
  "well_formed a = (case a of Other t \<Rightarrow> t \<notin> set declared_types | _ \<Rightarrow> True)"

text \<open>The example entry of \<^verbatim>\<open>questions.json\<close> given in the README.\<close>

definition example_question :: question where
  "example_question =
     \<lparr> question = ''Which is the most popular JavaScript framework?'',
       options = [''Angular'', ''React'', ''Svelte'', ''Vue''],
       correctOption = 1,
       points = 10 \<rparr>"

section \<open>Properties\<close>

subsection \<open>Auxiliary facts\<close>

text \<open>
  \<open>n + 1\<close> ticks in a row take \<open>n + 1\<close> off the number of seconds (\<^verbatim>\<open>null\<close>
  counting as 0), and the status is \<open>Finished\<close> as soon as the count is at or
  below 0. This is a fact of the integer arithmetic of the model; the theorems
  below use it inside the safe range.
\<close>

lemma dispatch_ticks:
  "dispatch_all s (replicate (Suc n) Tick) =
     Inr (s\<lparr>secondsRemaining := Some (to_number (secondsRemaining s) - int (Suc n)),
            status := (if to_number (secondsRemaining s) - int (Suc n) \<le> 0
                       then Finished else status s)\<rparr>)"
proof (induction n arbitrary: s)
  case 0
  show ?case by (simp add: Let_def)
next
  case (Suc n)
  let ?s1 = "s\<lparr>secondsRemaining := Some (to_number (secondsRemaining s) - 1),
                status := (if to_number (secondsRemaining s) - 1 \<le> 0
                           then Finished else status s)\<rparr>"
  have step: "dispatch_all s (replicate (Suc (Suc n)) Tick) =
                dispatch_all ?s1 (replicate (Suc n) Tick)"
    by (simp add: Let_def)
  show ?case
    unfolding step Suc.IH [of ?s1]
    by (simp add: to_number_def)
qed

lemma dispatch_all_append:
  "dispatch_all s (as @ bs) =
     (case dispatch_all s as of Inl e \<Rightarrow> Inl e | Inr s' \<Rightarrow> dispatch_all s' bs)"
  by (induction as arbitrary: s) (simp_all split: sum.splits)

lemma array_at_in_range:
  "0 \<le> i \<Longrightarrow> i < int (length xs) \<Longrightarrow> array_at xs i = Some (xs ! nat i)"
  by (simp add: array_at_def Let_def)


lemma array_at_Some_mem: "array_at xs i = Some x \<Longrightarrow> x \<in> set xs"
  by (auto simp: array_at_def Let_def split: if_splits)

lemma well_formed_declared_cases:
  assumes "well_formed a" and "atype a \<in> set declared_types"
  obtains (DataReceived) qs where "a = DataReceived qs"
    | (DataFailed) "a = DataFailed"
    | (Start) "a = Start"
    | (NewAnswer) c where "a = NewAnswer c"
    | (NextQuestion) "a = NextQuestion"
    | (Finish) "a = Finish"
    | (Restart) "a = Restart"
    | (Tick) "a = Tick"
  using assms by (cases a) (simp_all add: well_formed_def)

subsection \<open>The countdown\<close>

text \<open>
  C1. The claim: in an active state \<open>tick\<close> takes 1 off \<open>secondsRemaining\<close>, and
  when the result is at or below 0 the status becomes \<open>finished\<close> with the high
  score raised to \<open>max(points, highscore)\<close>, as \<open>finish\<close> does. The reducer does
  the first two and leaves the high score alone: in an active state with 10
  points, high score 0 and one second left, \<open>tick\<close> ends the quiz with the high
  score still 0, where \<open>finish\<close> from the same state gives high score 10.
\<close>

theorem tick_timeout_keeps_stale_highscore:
  "reducer \<lparr> questions = [example_question], status = Active, index = 0,
             answer = Some 1, points = 10, highscore = 0,
             secondsRemaining = Some 1 \<rparr> Tick
     = Inr \<lparr> questions = [example_question], status = Finished, index = 0,
             answer = Some 1, points = 10, highscore = 0,
             secondsRemaining = Some 0 \<rparr>
   \<and> reducer \<lparr> questions = [example_question], status = Active, index = 0,
             answer = Some 1, points = 10, highscore = 0,
             secondsRemaining = Some 1 \<rparr> Finish
     = Inr \<lparr> questions = [example_question], status = Finished, index = 0,
             answer = Some 1, points = 10, highscore = 10,
             secondsRemaining = Some 1 \<rparr>"
  by (simp add: to_number_def)

text \<open>
  C2, as amended. In a finished state whose \<open>secondsRemaining\<close> is at or below 0
  (\<^verbatim>\<open>null\<close> counting as 0), any number \<open>n\<close> of further ticks leaves the status
  finished and leaves the questions, the index, the answer, the points and the
  high score as they are, but takes \<open>n\<close> off \<open>secondsRemaining\<close>, as long as
  the count so reached is still a safe integer: the reducer has no guard on the
  status, and a tick is not a no-op.
\<close>

theorem tick_after_finished:
  assumes "status s = Finished" and "to_number (secondsRemaining s) \<le> 0"
    and "isSafeInteger (to_number (secondsRemaining s) - int n)"
  shows "dispatch_all s (replicate n Tick) =
           Inr (if n = 0 then s
                else s\<lparr>secondsRemaining := Some (to_number (secondsRemaining s) - int n)\<rparr>)"
proof (cases n)
  case 0
  then show ?thesis by simp
next
  case (Suc m)
  have "s\<lparr>status := Finished\<rparr> = s"
    using assms(1) by simp
  then show ?thesis
    unfolding Suc dispatch_ticks using assms(1) by simp
qed

theorem tick_after_finished_witness:
  "isSafeInteger (0 - int 3)
   \<and> dispatch_all \<lparr> questions = [example_question], status = Finished, index = 0,
                  answer = Some 1, points = 10, highscore = 10,
                  secondsRemaining = Some 0 \<rparr> (replicate 3 Tick)
     = Inr \<lparr> questions = [example_question], status = Finished, index = 0,
             answer = Some 1, points = 10, highscore = 10,
             secondsRemaining = Some (- 3) \<rparr>"
  using tick_after_finished
          [of "\<lparr> questions = [example_question], status = Finished, index = 0,
                 answer = Some 1, points = 10, highscore = 10,
                 secondsRemaining = Some 0 \<rparr>" 3]
  by (simp add: to_number_def isSafeInteger_def MAX_SAFE_INTEGER_def)

text \<open>
  C2 as the specification states it fails: one tick in a finished state with 0
  seconds left gives a different state, with \<open>-1\<close> seconds left.
\<close>

theorem tick_after_finished_counterexample:
  "status \<lparr> questions = [example_question], status = Finished, index = 0,
            answer = Some 1, points = 10, highscore = 10,
            secondsRemaining = Some 0 \<rparr> = Finished
   \<and> reducer \<lparr> questions = [example_question], status = Finished, index = 0,
             answer = Some 1, points = 10, highscore = 10,
             secondsRemaining = Some 0 \<rparr> Tick
     = Inr \<lparr> questions = [example_question], status = Finished, index = 0,
             answer = Some 1, points = 10, highscore = 10,
             secondsRemaining = Some (- 1) \<rparr>
   \<and> reducer \<lparr> questions = [example_question], status = Finished, index = 0,
             answer = Some 1, points = 10, highscore = 10,
             secondsRemaining = Some 0 \<rparr> Tick
     \<noteq> Inr \<lparr> questions = [example_question], status = Finished, index = 0,
             answer = Some 1, points = 10, highscore = 10,
             secondsRemaining = Some 0 \<rparr>"
  by (simp add: to_number_def)

subsection \<open>Restart\<close>

text \<open>
  What \<open>restart\<close> does in any state: the initial state again, with the
  questions and the high score of the state it is applied to, and status ready.
  After \<open>finish\<close> that high score is the larger of the points and the old one.
\<close>

lemma restart_resets:
  "reducer s Restart =
     Inr \<lparr> questions = questions s, status = Ready, index = 0, answer = None,
             points = 0, highscore = highscore s, secondsRemaining = None \<rparr>"
  by (simp add: initialState_def)

lemma finish_then_restart:
  "dispatch_all s [Finish, Restart] =
     Inr \<lparr> questions = questions s, status = Ready, index = 0, answer = None,
             points = 0, highscore = max (state.points s) (highscore s),
             secondsRemaining = None \<rparr>"
  by (simp add: initialState_def)

text \<open>
  C3. The claim: \<open>restart\<close> from a reachable finished state gives the initial
  state with status \<open>ready\<close>, the questions kept and the high score equal to the
  best points total of the earlier play-throughs. \<open>restart\<close> itself carries the
  high score of the finished state over, so the claim fails where that high score
  is stale: loading the example question, starting, answering it correctly
  (10 points) and letting the 30 seconds run out ends the quiz with high score 0,
  and \<open>restart\<close> then gives high score 0, not 10.
\<close>

theorem restart_after_timeout_loses_points:
  "dispatch_all initialState
      ([DataReceived [example_question], Start, NewAnswer 1] @ replicate 30 Tick)
     = Inr \<lparr> questions = [example_question], status = Finished, index = 0,
             answer = Some 1, points = 10, highscore = 0,
             secondsRemaining = Some 0 \<rparr>
   \<and> dispatch_all initialState
      ([DataReceived [example_question], Start, NewAnswer 1] @ replicate 30 Tick @ [Restart])
     = Inr \<lparr> questions = [example_question], status = Ready, index = 0,
             answer = None, points = 0, highscore = 0,
             secondsRemaining = None \<rparr>"
proof -
  let ?s = "\<lparr> questions = [example_question], status = Active, index = 0,
              answer = Some 1, points = 10, highscore = 0,
              secondsRemaining = Some 30 \<rparr>"
  have pre: "dispatch_all initialState [DataReceived [example_question], Start, NewAnswer 1]
               = Inr ?s"
    by (simp add: initialState_def SECS_PER_QUESTION_def array_at_def example_question_def)
  have n30: "replicate 30 Tick = replicate (Suc 29) Tick"
    by simp
  have ticks: "dispatch_all ?s (replicate 30 Tick)
                 = Inr \<lparr> questions = [example_question], status = Finished, index = 0,
                         answer = Some 1, points = 10, highscore = 0,
                         secondsRemaining = Some 0 \<rparr>"
    unfolding n30 dispatch_ticks by (simp add: to_number_def)
  show ?thesis
    by (simp only: dispatch_all_append pre ticks sum.case)
       (simp add: initialState_def)
qed

subsection \<open>Start\<close>

text \<open>
  C4. In a ready state \<open>start\<close> makes the status active and sets
  \<open>secondsRemaining\<close> to the number of questions times \<open>SECS_PER_QUESTION\<close>,
  which is 30. With 3 questions that is 90; each of the first 89 ticks after it
  leaves the status active, and after exactly 90 ticks the status is finished.
\<close>

theorem start_sets_countdown:
  assumes "status s = Ready"
  shows "reducer s Start =
           Inr (s\<lparr>status := Active,
                  secondsRemaining := Some (int (length (questions s)) * SECS_PER_QUESTION)\<rparr>)
         \<and> SECS_PER_QUESTION = 30
         \<and> (length (questions s) = 3 \<longrightarrow>
              reducer s Start = Inr (s\<lparr>status := Active, secondsRemaining := Some 90\<rparr>)
              \<and> (\<forall>k<90. dispatch_all s (Start # replicate k Tick) =
                     Inr (s\<lparr>status := Active, secondsRemaining := Some (90 - int k)\<rparr>))
              \<and> dispatch_all s (Start # replicate 90 Tick) =
                     Inr (s\<lparr>status := Finished, secondsRemaining := Some 0\<rparr>))"
proof (intro conjI impI allI)
  show "reducer s Start =
          Inr (s\<lparr>status := Active,
                 secondsRemaining := Some (int (length (questions s)) * SECS_PER_QUESTION)\<rparr>)"
    by simp
  show "SECS_PER_QUESTION = 30"
    by (simp add: SECS_PER_QUESTION_def)
next
  assume three: "length (questions s) = 3"
  then show start: "reducer s Start = Inr (s\<lparr>status := Active, secondsRemaining := Some 90\<rparr>)"
    by (simp add: SECS_PER_QUESTION_def)
  let ?a = "s\<lparr>status := Active, secondsRemaining := Some 90\<rparr>"
  have run: "dispatch_all s (Start # replicate k Tick) = dispatch_all ?a (replicate k Tick)" for k
    using three by (simp add: SECS_PER_QUESTION_def)
  show "dispatch_all s (Start # replicate k Tick) =
          Inr (s\<lparr>status := Active, secondsRemaining := Some (90 - int k)\<rparr>)" if "k < 90" for k
  proof (cases k)
    case 0
    then show ?thesis unfolding run by simp
  next
    case (Suc m)
    then show ?thesis
      using that unfolding run Suc dispatch_ticks by (simp add: to_number_def)
  qed
  have n90: "replicate 90 Tick = replicate (Suc 89) Tick"
    by simp
  show "dispatch_all s (Start # replicate 90 Tick) =
          Inr (s\<lparr>status := Finished, secondsRemaining := Some 0\<rparr>)"
    unfolding run n90 dispatch_ticks by (simp add: to_number_def)
qed

theorem start_sets_countdown_witness:
  "status (initialState\<lparr>questions := [example_question, example_question, example_question],
                        status := Ready\<rparr>) = Ready
   \<and> length (questions (initialState\<lparr>questions := [example_question, example_question, example_question],
                                    status := Ready\<rparr>)) = 3
   \<and> reducer (initialState\<lparr>questions := [example_question, example_question, example_question],
                           status := Ready\<rparr>) Start
       = Inr \<lparr> questions = [example_question, example_question, example_question],
               status = Active, index = 0, answer = None, points = 0, highscore = 0,
               secondsRemaining = Some 90 \<rparr>
   \<and> dispatch_all (initialState\<lparr>questions := [example_question, example_question, example_question],
                                status := Ready\<rparr>) (Start # replicate 89 Tick)
       = Inr \<lparr> questions = [example_question, example_question, example_question],
               status = Active, index = 0, answer = None, points = 0, highscore = 0,
               secondsRemaining = Some 1 \<rparr>
   \<and> dispatch_all (initialState\<lparr>questions := [example_question, example_question, example_question],
                                status := Ready\<rparr>) (Start # replicate 90 Tick)
       = Inr \<lparr> questions = [example_question, example_question, example_question],
               status = Finished, index = 0, answer = None, points = 0, highscore = 0,
               secondsRemaining = Some 0 \<rparr>"
  using start_sets_countdown
          [of "initialState\<lparr>questions := [example_question, example_question, example_question],
                            status := Ready\<rparr>"]
  by (simp add: initialState_def)

subsection \<open>Answering\<close>

text \<open>
  C5. In an active state with no answer selected and the index inside the
  list of questions, \<open>newAnswer(c)\<close> stores \<open>c\<close> as the answer, adds the points
  of the current question exactly when \<open>c\<close> is its correct option, and leaves
  the status active; with correct option 2 worth 15 points, \<open>newAnswer(2)\<close>
  adds 15 and selects 2. The points of the state, the points of the question
  and their sum are safe integers, so that the sum of the code is the integer
  sum.
\<close>

theorem newAnswer_scores_current_question:
  assumes "status s = Active" and "answer s = None"
    and "0 \<le> index s" and "index s < int (length (questions s))"
    and "isSafeInteger (state.points s)"
    and "isSafeInteger (question.points (questions s ! nat (index s)))"
    and "isSafeInteger (state.points s + question.points (questions s ! nat (index s)))"
  shows "\<exists>s'. reducer s (NewAnswer c) = Inr s'
            \<and> s' = s\<lparr>answer := Some c,
                      points := (if c = correctOption (questions s ! nat (index s))
                                 then state.points s + question.points (questions s ! nat (index s))
                                 else state.points s)\<rparr>
            \<and> status s' = Active
            \<and> (correctOption (questions s ! nat (index s)) = 2
                 \<and> question.points (questions s ! nat (index s)) = 15
                 \<and> c = 2
               \<longrightarrow> state.points s' = state.points s + 15 \<and> answer s' = Some 2)"
  using assms by (simp add: array_at_in_range)

theorem newAnswer_scores_current_question_witness:
  "isSafeInteger 20 \<and> isSafeInteger 15 \<and> isSafeInteger (20 + 15)
   \<and> reducer \<lparr> questions = [\<lparr> question = ''Which option is the third?'', options = [''a'', ''b'', ''c'', ''d''], correctOption = 2, points = 15 \<rparr>],
             status = Active, index = 0, answer = None, points = 20, highscore = 0,
             secondsRemaining = Some 30 \<rparr> (NewAnswer 2)
     = Inr \<lparr> questions = [\<lparr> question = ''Which option is the third?'', options = [''a'', ''b'', ''c'', ''d''], correctOption = 2, points = 15 \<rparr>],
             status = Active, index = 0, answer = Some 2, points = 35, highscore = 0,
             secondsRemaining = Some 30 \<rparr>"
  using newAnswer_scores_current_question
          [of "\<lparr> questions = [\<lparr> question = ''Which option is the third?'', options = [''a'', ''b'', ''c'', ''d''], correctOption = 2, points = 15 \<rparr>],
                 status = Active, index = 0, answer = None, points = 20, highscore = 0,
                 secondsRemaining = Some 30 \<rparr>" 2]
  by (simp add: isSafeInteger_def MAX_SAFE_INTEGER_def)

subsection \<open>Finish\<close>

text \<open>
  C6. In an active state \<open>finish\<close> makes the status finished and the high score
  \<open>max(points, highscore)\<close>, every other field staying as it is; so right after
  \<open>finish\<close> the high score is the larger of the old high score and the points,
  and is at least the points.
\<close>

theorem finish_updates_highscore:
  assumes "status s = Active"
  shows "\<exists>s'. reducer s Finish = Inr s'
            \<and> s' = s\<lparr>status := Finished, highscore := max (state.points s) (highscore s)\<rparr>
            \<and> status s' = Finished
            \<and> highscore s' = max (highscore s) (state.points s)
            \<and> highscore s' = max (highscore s') (state.points s')"
  by (simp add: max.commute)

theorem finish_updates_highscore_witness:
  "reducer \<lparr> questions = [example_question], status = Active, index = 0,
             answer = Some 1, points = 10, highscore = 0,
             secondsRemaining = Some 12 \<rparr> Finish
     = Inr \<lparr> questions = [example_question], status = Finished, index = 0,
             answer = Some 1, points = 10, highscore = 10,
             secondsRemaining = Some 12 \<rparr>"
  using finish_updates_highscore
          [of "\<lparr> questions = [example_question], status = Active, index = 0,
                 answer = Some 1, points = 10, highscore = 0,
                 secondsRemaining = Some 12 \<rparr>"]
  by simp

subsection \<open>Unknown actions\<close>

text \<open>
  C7. An action whose type is none of the eight declared ones makes the reducer
  throw the unknown-action error: the dispatch gives no next state at all, so no
  partly updated state either.
\<close>

theorem unknown_action_throws:
  assumes "atype a \<notin> set declared_types"
  shows "reducer s a = Inl UnknownAction"
  using assms by (cases a) (simp_all add: declared_types_def)

theorem unknown_action_throws_witness:
  "atype (Other ''reset'') \<notin> set declared_types
   \<and> reducer initialState (Other ''reset'') = Inl UnknownAction"
  using unknown_action_throws [of "Other ''reset''" initialState]
  by (simp add: declared_types_def)

subsection \<open>Scores never go down\<close>

text \<open>
  C8. When every loaded question has points at or above 0, a declared action
  that returns a state returns one whose high score is at least the old one,
  and, unless the action is \<open>restart\<close>, whose points are at least the old ones.
\<close>

theorem scores_never_decrease:
  assumes nonneg: "\<forall>q \<in> set (questions s). 0 \<le> question.points q"
    and wf: "well_formed a" and decl: "atype a \<in> set declared_types"
    and step: "reducer s a = Inr s'"
  shows "highscore s \<le> highscore s' \<and> (a \<noteq> Restart \<longrightarrow> state.points s \<le> state.points s')"
  using wf decl
proof (cases a rule: well_formed_declared_cases)
  case (NewAnswer c)
  from step NewAnswer obtain q where q: "array_at (questions s) (index s) = Some q"
    and s': "s' = s\<lparr>answer := Some c,
                     points := (if c = correctOption q
                                then state.points s + question.points q
                                else state.points s)\<rparr>"
    by (auto split: option.splits)
  from q have "q \<in> set (questions s)"
    by (rule array_at_Some_mem)
  with nonneg have "0 \<le> question.points q"
    by blast
  with s' show ?thesis
    by simp
next
  case Restart
  with step show ?thesis by auto
qed (use step in \<open>auto simp: Let_def\<close>)

theorem scores_never_decrease_witness:
  "0 \<le> question.points example_question
   \<and> well_formed (NewAnswer 1) \<and> atype (NewAnswer 1) \<in> set declared_types
   \<and> reducer \<lparr> questions = [example_question], status = Active, index = 0,
               answer = None, points = 5, highscore = 7,
               secondsRemaining = Some 30 \<rparr> (NewAnswer 1)
       = Inr \<lparr> questions = [example_question], status = Active, index = 0,
               answer = Some 1, points = 15, highscore = 7,
               secondsRemaining = Some 30 \<rparr>
   \<and> (7::int) \<le> 7 \<and> (5::int) \<le> 15"
  using scores_never_decrease
          [of "\<lparr> questions = [example_question], status = Active, index = 0,
                 answer = None, points = 5, highscore = 7,
                 secondsRemaining = Some 30 \<rparr>"
              "NewAnswer 1"
              "\<lparr> questions = [example_question], status = Active, index = 0,
                 answer = Some 1, points = 15, highscore = 7,
                 secondsRemaining = Some 30 \<rparr>"]
  by (simp add: well_formed_def declared_types_def array_at_def example_question_def)

subsection \<open>Totality\<close>




subsection \<open>Next question\<close>

text \<open>
  C10. In every state whose index is a safe integer \<open>nextQuestion\<close> adds
  exactly 1 to the index and clears the answer, every other field staying as it
  is. The reducer checks no upper bound: from an active state on the last question the index becomes the number
  of questions and the status stays active. The guard is in \<^verbatim>\<open>NextButton\<close>,
  whose button dispatches \<open>nextQuestion\<close> only before the last question and
  \<open>finish\<close> on the last one.
\<close>

theorem nextQuestion_has_no_upper_bound:
  assumes "isSafeInteger (index s)"
  shows "reducer s NextQuestion = Inr (s\<lparr>index := index s + 1, answer := None\<rparr>)
   \<and> (status s = Active \<and> index s = int (length (questions s)) - 1 \<longrightarrow>
        (\<exists>s'. reducer s NextQuestion = Inr s'
             \<and> index s' = int (length (questions s')) \<and> status s' = Active))
   \<and> (NextButton ans n i = Some NextQuestion \<longleftrightarrow> ans \<noteq> None \<and> i < n - 1)
   \<and> (ans \<noteq> None \<and> i = n - 1 \<longrightarrow> NextButton ans n i = Some Finish)"
  by (simp add: NextButton_def)

theorem nextQuestion_has_no_upper_bound_witness:
  "isSafeInteger 0
   \<and> reducer \<lparr> questions = [example_question], status = Active, index = 0,
             answer = Some 1, points = 10, highscore = 0,
             secondsRemaining = Some 12 \<rparr> NextQuestion
     = Inr \<lparr> questions = [example_question], status = Active, index = 1,
             answer = None, points = 10, highscore = 0,
             secondsRemaining = Some 12 \<rparr>
   \<and> NextButton (Some 1) 1 0 = Some Finish"
  using nextQuestion_has_no_upper_bound
          [of "\<lparr> questions = [example_question], status = Active, index = 0,
                 answer = Some 1, points = 10, highscore = 0,
                 secondsRemaining = Some 12 \<rparr>" "Some 1" 1 0]
  by (simp add: isSafeInteger_def MAX_SAFE_INTEGER_def)

end
